theory Spec2Isabelle
  imports Complex_Main "HOL-Library.List_Lexorder"
begin

section \<open>Bounded Bravais lattices (bloqade/ir/location/bravais.py)\<close>

text \<open>
  The module builds finite pieces of two-dimensional Bravais lattices. An object of
  class \<^verbatim>\<open>BoundedBravais\<close> carries the repeat counts \<^verbatim>\<open>shape\<close>, the scalar
  \<^verbatim>\<open>lattice_spacing\<close> and two private lazily filled attributes \<^verbatim>\<open>__n_atoms\<close> and
  \<^verbatim>\<open>__n_dims\<close>; the seven subclasses supply \<^verbatim>\<open>cell_vectors\<close> and \<^verbatim>\<open>cell_atoms\<close>.

  Conventions of the embedding.
  \<^item> Python exceptions are values of \<open>error\<close>; a fallible function returns \<open>error + 'a\<close>.
  \<^item> The entries of \<^verbatim>\<open>shape\<close> are Python integers, hence \<open>int\<close>.
  \<^item> \<^verbatim>\<open>Scalar\<close> and \<^verbatim>\<open>cast\<close> come from \<^verbatim>\<open>bloqade.ir\<close>, which is not part of this
    module. The scalar algebra is taken to be the field of real numbers with exact
    arithmetic, \<^verbatim>\<open>cast\<close> is the inclusion of numbers into it, and dividing by zero
    raises. The numbers numpy computes with are read the same way.
  \<^item> An attribute of a Python object exists only once it has been assigned, so every
    attribute of the record below is optional: \<open>None\<close> is ``not set''. The private
    caches hold Python's \<^verbatim>\<open>None\<close> or a number once they are set, hence a nested option.
  \<^item> \<^verbatim>\<open>super().__init__()\<close> of \<^verbatim>\<open>AtomArrangement\<close> lies outside the module and
    touches none of the attributes modelled here.
\<close>

subsection \<open>Errors and objects\<close>

datatype error = AttributeError | ValueError | ZeroDivisionError

text \<open>The concrete class of an object, \<^verbatim>\<open>type(self)\<close>.\<close>

datatype family = Chain | Square | Rectangular | Honeycomb | Triangular | Lieb | Kagome

record lattice =
  family :: family
  shape :: "int list option"
  lattice_spacing :: "real option"
  ratio :: "real option"
  n_atoms_priv :: "int option option"
  n_dims_priv :: "nat option option"

text \<open>The element type of the enumeration: a position and the ``filled'' flag.\<close>

datatype LocationInfo = LocationInfo (position: "real list") (filled: bool)

text \<open>\<^verbatim>\<open>cls.__new__(cls)\<close>: an object of the class with no instance attribute.\<close>

definition object_new :: "family \<Rightarrow> lattice" where
  "object_new cls =
     \<lparr>family = cls, shape = None, lattice_spacing = None, ratio = None,
      n_atoms_priv = None, n_dims_priv = None\<rparr>"

text \<open>
  Reading \<^verbatim>\<open>self.ratio\<close> on an object of class \<^verbatim>\<open>Rectangular\<close>, the only class that
  has the attribute and the only one whose code reads it. The class declares
  \<^verbatim>\<open>ratio: Scalar = 1.0\<close>, so the class attribute answers when the instance has none
  and the read cannot fail.
\<close>

definition get_ratio :: "lattice \<Rightarrow> real" where
  "get_ratio self = (case ratio self of Some r \<Rightarrow> r | None \<Rightarrow> 1)"

subsection \<open>Constructors\<close>

text \<open>
  \<^verbatim>\<open>BoundedBravais.__init__(self, *shape, lattice_spacing=1.0)\<close>. Default arguments are
  passed explicitly in the model.
\<close>

definition BoundedBravais_init :: "lattice \<Rightarrow> int list \<Rightarrow> real \<Rightarrow> lattice" where
  "BoundedBravais_init self shp spacing =
     self\<lparr>shape := Some shp, lattice_spacing := Some spacing,
          n_atoms_priv := Some None, n_dims_priv := Some None\<rparr>"

definition Chain_init :: "lattice \<Rightarrow> int \<Rightarrow> real \<Rightarrow> lattice" where
  "Chain_init self L spacing = BoundedBravais_init self [L] spacing"

definition Square_init :: "lattice \<Rightarrow> int \<Rightarrow> real \<Rightarrow> lattice" where
  "Square_init self L spacing = BoundedBravais_init self [L, L] spacing"

text \<open>
  \<^verbatim>\<open>Rectangular.__init__\<close> sets \<^verbatim>\<open>ratio\<close> first, by a division of scalars, and then
  runs the base initialiser with \<^verbatim>\<open>lattice_spacing_x\<close>.
\<close>

definition scalar_div :: "real \<Rightarrow> real \<Rightarrow> error + real" where
  "scalar_div a b = (if b = 0 then Inl ZeroDivisionError else Inr (a / b))"

definition Rectangular_init ::
    "lattice \<Rightarrow> int \<Rightarrow> int \<Rightarrow> real \<Rightarrow> real option \<Rightarrow> error + lattice" where
  "Rectangular_init self width height lattice_spacing_x lattice_spacing_y =
     (case (case lattice_spacing_y of
              None \<Rightarrow> scalar_div 1 lattice_spacing_x
            | Some y \<Rightarrow> scalar_div y lattice_spacing_x) of
        Inl e \<Rightarrow> Inl e
      | Inr r \<Rightarrow>
          Inr (BoundedBravais_init (self\<lparr>ratio := Some r\<rparr>) [width, height] lattice_spacing_x))"

definition Honeycomb_init :: "lattice \<Rightarrow> int \<Rightarrow> real \<Rightarrow> lattice" where
  "Honeycomb_init self L spacing = BoundedBravais_init self [L, L] spacing"

definition Triangular_init :: "lattice \<Rightarrow> int \<Rightarrow> real \<Rightarrow> lattice" where
  "Triangular_init self L spacing = BoundedBravais_init self [L, L] spacing"

definition Lieb_init :: "lattice \<Rightarrow> int \<Rightarrow> real \<Rightarrow> lattice" where
  "Lieb_init self L spacing = BoundedBravais_init self [L, L] spacing"

definition Kagome_init :: "lattice \<Rightarrow> int \<Rightarrow> real \<Rightarrow> lattice" where
  "Kagome_init self L spacing = BoundedBravais_init self [L, L] spacing"

text \<open>
  The user-facing calls \<^verbatim>\<open>Chain(L, lattice_spacing)\<close>, \<^verbatim>\<open>Square(L, lattice_spacing)\<close>, ...:
  a fresh object of the class, then its initialiser.
\<close>

definition new_Chain :: "int \<Rightarrow> real \<Rightarrow> lattice" where
  "new_Chain L spacing = Chain_init (object_new Chain) L spacing"

definition new_Square :: "int \<Rightarrow> real \<Rightarrow> lattice" where
  "new_Square L spacing = Square_init (object_new Square) L spacing"

definition new_Rectangular :: "int \<Rightarrow> int \<Rightarrow> real \<Rightarrow> real option \<Rightarrow> error + lattice" where
  "new_Rectangular width height lattice_spacing_x lattice_spacing_y =
     Rectangular_init (object_new Rectangular) width height lattice_spacing_x lattice_spacing_y"

definition new_Honeycomb :: "int \<Rightarrow> real \<Rightarrow> lattice" where
  "new_Honeycomb L spacing = Honeycomb_init (object_new Honeycomb) L spacing"

definition new_Triangular :: "int \<Rightarrow> real \<Rightarrow> lattice" where
  "new_Triangular L spacing = Triangular_init (object_new Triangular) L spacing"

definition new_Lieb :: "int \<Rightarrow> real \<Rightarrow> lattice" where
  "new_Lieb L spacing = Lieb_init (object_new Lieb) L spacing"

definition new_Kagome :: "int \<Rightarrow> real \<Rightarrow> lattice" where
  "new_Kagome L spacing = Kagome_init (object_new Kagome) L spacing"

subsection \<open>Cell geometry\<close>

definition cell_vectors :: "lattice \<Rightarrow> real list list" where
  "cell_vectors self =
     (case family self of
        Chain \<Rightarrow> [[1, 0]]
      | Square \<Rightarrow> [[1, 0], [0, 1]]
      | Rectangular \<Rightarrow> [[1, 0], [0, get_ratio self]]
      | Honeycomb \<Rightarrow> [[1, 0], [1 / 2, sqrt 3 / 2]]
      | Triangular \<Rightarrow> [[1, 0], [1 / 2, sqrt 3 / 2]]
      | Lieb \<Rightarrow> [[1, 0], [0, 1]]
      | Kagome \<Rightarrow> [[1, 0], [1 / 2, sqrt 3 / 2]])"

definition cell_atoms :: "lattice \<Rightarrow> real list list" where
  "cell_atoms self =
     (case family self of
        Chain \<Rightarrow> [[0, 0]]
      | Square \<Rightarrow> [[0, 0]]
      | Rectangular \<Rightarrow> [[0, 0]]
      | Honeycomb \<Rightarrow> [[0, 0], [1 / 2, 1 / (2 * sqrt 3)]]
      | Triangular \<Rightarrow> [[0, 0]]
      | Lieb \<Rightarrow> [[0, 0], [1 / 2, 0], [0, 1 / 2]]
      | Kagome \<Rightarrow> [[0, 0], [1 / 2, 0], [1 / 4, sqrt 3 / 4]])"

subsection \<open>Derived properties\<close>

text \<open>
  \<^verbatim>\<open>np.prod(self.shape)\<close>: the product of the repeat counts, which are Python integers;
  the product is taken exactly (the width of numpy's accumulator is not modelled).
\<close>

definition np_prod :: "int list \<Rightarrow> int" where
  "np_prod xs = prod_list xs"

text \<open>
  The property \<^verbatim>\<open>n_atoms\<close>, statement by statement. \<open>n_atoms_stale\<close> is the test
  \<^verbatim>\<open>not self.__n_atoms\<close>: it raises when the private attribute was never assigned, and
  it holds for \<^verbatim>\<open>None\<close> and for zero. \<open>n_atoms_fill\<close> is the assignment
  \<^verbatim>\<open>self.__n_atoms = len(self.cell_atoms()) * np.prod(self.shape)\<close>. The property
  returns the value together with the (possibly updated) object. At the final
  \<^verbatim>\<open>return self.__n_atoms\<close> the attribute always holds a number: either the test failed,
  so it held a non-zero number, or the assignment has just stored one.
\<close>

definition n_atoms_stale :: "lattice \<Rightarrow> error + bool" where
  "n_atoms_stale self =
     (case n_atoms_priv self of
        None \<Rightarrow> Inl AttributeError
      | Some None \<Rightarrow> Inr True
      | Some (Some v) \<Rightarrow> Inr (v = 0))"

definition n_atoms_fill :: "lattice \<Rightarrow> error + lattice" where
  "n_atoms_fill self =
     (case shape self of
        None \<Rightarrow> Inl AttributeError
      | Some shp \<Rightarrow>
          Inr (self\<lparr>n_atoms_priv := Some (Some (int (length (cell_atoms self)) * np_prod shp))\<rparr>))"

definition n_atoms :: "lattice \<Rightarrow> error + (int \<times> lattice)" where
  "n_atoms self =
     (case n_atoms_stale self of
        Inl e \<Rightarrow> Inl e
      | Inr stale \<Rightarrow>
          (case (if stale then n_atoms_fill self else Inr self) of
             Inl e \<Rightarrow> Inl e
           | Inr self' \<Rightarrow>
               (case n_atoms_priv self' of
                  Some (Some v) \<Rightarrow> Inr (v, self')
                | _ \<Rightarrow> Inl AttributeError)))"

text \<open>The property \<^verbatim>\<open>n_dims\<close> has the same form, over \<^verbatim>\<open>len(self.cell_vectors())\<close>.\<close>

definition n_dims_stale :: "lattice \<Rightarrow> error + bool" where
  "n_dims_stale self =
     (case n_dims_priv self of
        None \<Rightarrow> Inl AttributeError
      | Some None \<Rightarrow> Inr True
      | Some (Some v) \<Rightarrow> Inr (v = 0))"

definition n_dims_fill :: "lattice \<Rightarrow> lattice" where
  "n_dims_fill self = self\<lparr>n_dims_priv := Some (Some (length (cell_vectors self)))\<rparr>"

definition n_dims :: "lattice \<Rightarrow> error + (nat \<times> lattice)" where
  "n_dims self =
     (case n_dims_stale self of
        Inl e \<Rightarrow> Inl e
      | Inr stale \<Rightarrow>
          (let self' = (if stale then n_dims_fill self else self) in
           case n_dims_priv self' of
             Some (Some v) \<Rightarrow> Inr (v, self')
           | _ \<Rightarrow> Inl AttributeError))"

text \<open>
  \<open>n_atoms_evaluations k self\<close> reads the property \<open>k\<close> times in a row on the same
  object and counts how often the product was evaluated, that is, how often the test
  \<^verbatim>\<open>not self.__n_atoms\<close> held.
\<close>

fun n_atoms_evaluations :: "nat \<Rightarrow> lattice \<Rightarrow> error + nat" where
  "n_atoms_evaluations 0 self = Inr 0"
| "n_atoms_evaluations (Suc k) self =
     (case n_atoms_stale self of
        Inl e \<Rightarrow> Inl e
      | Inr stale \<Rightarrow>
          (case n_atoms self of
             Inl e \<Rightarrow> Inl e
           | Inr (v, self') \<Rightarrow>
               (case n_atoms_evaluations k self' of
                  Inl e \<Rightarrow> Inl e
                | Inr c \<Rightarrow> Inr ((if stale then 1 else 0) + c))))"

subsection \<open>Enumeration\<close>

text \<open>
  Two one-dimensional numpy arrays combine elementwise when their lengths agree or one
  of them has length one (it is then repeated); otherwise numpy raises \<^verbatim>\<open>ValueError\<close>.
\<close>

definition np_broadcast :: "(real \<Rightarrow> real \<Rightarrow> real) \<Rightarrow> real list \<Rightarrow> real list \<Rightarrow> error + real list" where
  "np_broadcast f xs ys =
     (if length xs = length ys then Inr (map2 f xs ys)
      else if length xs = 1 then Inr (map (f (hd xs)) ys)
      else if length ys = 1 then Inr (map (\<lambda>x. f x (hd ys)) xs)
      else Inl ValueError)"

text \<open>A loop whose body may raise: the first error ends it.\<close>

fun for_each :: "('a \<Rightarrow> error + 'b) \<Rightarrow> 'a list \<Rightarrow> error + 'b list" where
  "for_each f [] = Inr []"
| "for_each f (x # xs) =
     (case f x of
        Inl e \<Rightarrow> Inl e
      | Inr y \<Rightarrow> (case for_each f xs of Inl e \<Rightarrow> Inl e | Inr ys \<Rightarrow> Inr (y # ys)))"

text \<open>
  \<^verbatim>\<open>coordinates(self, index)\<close>: \<^verbatim>\<open>vectors.T * index\<close> multiplies every row of the
  transposed matrix of cell vectors with the index, \<^verbatim>\<open>np.sum(..., axis=1)\<close> sums each
  row, and adding the matrix of cell atoms adds the result to each of its rows.
\<close>

definition coordinates :: "lattice \<Rightarrow> int list \<Rightarrow> error + real list list" where
  "coordinates self index =
     (let vectors = cell_vectors self;
          index' = map real_of_int index
      in case for_each (\<lambda>row. np_broadcast (*) row index') (transpose vectors) of
           Inl e \<Rightarrow> Inl e
         | Inr products \<Rightarrow>
             (let pos = map sum_list products
              in for_each (\<lambda>atom. np_broadcast (+) pos atom) (cell_atoms self)))"

text \<open>\<^verbatim>\<open>range(n)\<close> and \<^verbatim>\<open>itertools.product\<close> (the rightmost position advances first).\<close>

definition range_int :: "int \<Rightarrow> int list" where
  "range_int n = [0..n - 1]"

fun itertools_product :: "'a list list \<Rightarrow> 'a list list" where
  "itertools_product [] = [[]]"
| "itertools_product (xs # xss) =
     concat (map (\<lambda>x. map ((#) x) (itertools_product xss)) xs)"

text \<open>
  \<^verbatim>\<open>enumerate(self)\<close>. The generator is modelled by the list of everything it yields;
  an exception while it runs makes the whole enumeration an error.
\<close>

definition enumerate_lattice :: "lattice \<Rightarrow> error + LocationInfo list" where
  "enumerate_lattice self =
     (case shape self of
        None \<Rightarrow> Inl AttributeError
      | Some shp \<Rightarrow>
          (case for_each
                  (\<lambda>index.
                     case coordinates self index of
                       Inl e \<Rightarrow> Inl e
                     | Inr rows \<Rightarrow>
                         for_each
                           (\<lambda>pos.
                              case lattice_spacing self of
                                None \<Rightarrow> Inl AttributeError
                              | Some spacing \<Rightarrow>
                                  Inr (LocationInfo (map ((*) spacing) pos) True))
                           rows)
                  (itertools_product (map range_int shp)) of
             Inl e \<Rightarrow> Inl e
           | Inr chunks \<Rightarrow> Inr (concat chunks)))"

subsection \<open>Scaling\<close>

text \<open>
  \<^verbatim>\<open>scale\<close> creates a second object and assigns to it while reading the first, so it is
  modelled over a store of objects: a list, an object's address being its position
  (the addresses in use are those below the length of the list).
  \<^verbatim>\<open>fields(self)\<close> are the dataclass fields in declaration order: \<^verbatim>\<open>shape\<close> and
  \<^verbatim>\<open>lattice_spacing\<close> from the base class, \<^verbatim>\<open>ratio\<close> in addition for
  \<^verbatim>\<open>Rectangular\<close> (its two \<^verbatim>\<open>InitVar\<close> pseudo-fields are not fields).
\<close>

type_synonym store = "lattice list"

datatype dc_field = F_shape | F_lattice_spacing | F_ratio

definition fields :: "lattice \<Rightarrow> dc_field list" where
  "fields self =
     (if family self = Rectangular then [F_shape, F_lattice_spacing, F_ratio]
      else [F_shape, F_lattice_spacing])"

text \<open>\<^verbatim>\<open>setattr(obj, f.name, getattr(self, f.name))\<close> for one field.\<close>

definition copy_attr :: "dc_field \<Rightarrow> lattice \<Rightarrow> lattice \<Rightarrow> error + lattice" where
  "copy_attr f self obj =
     (case f of
        F_shape \<Rightarrow>
          (case shape self of
             None \<Rightarrow> Inl AttributeError
           | Some shp \<Rightarrow> Inr (obj\<lparr>shape := Some shp\<rparr>))
      | F_lattice_spacing \<Rightarrow>
          (case lattice_spacing self of
             None \<Rightarrow> Inl AttributeError
           | Some spacing \<Rightarrow> Inr (obj\<lparr>lattice_spacing := Some spacing\<rparr>))
      | F_ratio \<Rightarrow> Inr (obj\<lparr>ratio := Some (get_ratio self)\<rparr>))"

text \<open>The loop over the fields; \<open>self\<close> and \<open>obj\<close> are addresses in the store \<open>h\<close>.\<close>

fun scale_loop :: "dc_field list \<Rightarrow> real \<Rightarrow> nat \<Rightarrow> nat \<Rightarrow> store \<Rightarrow> error + store" where
  "scale_loop [] factor self obj h = Inr h"
| "scale_loop (f # fs) factor self obj h =
     (if f = F_lattice_spacing then
        (case lattice_spacing (h ! self) of
           None \<Rightarrow> Inl AttributeError
         | Some spacing \<Rightarrow>
             scale_loop fs factor self obj
               (h[obj := (h ! obj)\<lparr>lattice_spacing := Some (factor * spacing)\<rparr>]))
      else
        (case copy_attr f (h ! self) (h ! obj) of
           Inl e \<Rightarrow> Inl e
         | Inr obj' \<Rightarrow> scale_loop fs factor self obj (h[obj := obj'])))"

text \<open>
  \<^verbatim>\<open>scale(self, factor)\<close>: the new object is allocated at the end of the store by
  \<^verbatim>\<open>self.__new__(type(self))\<close>, without running any initialiser; the result is its
  address and the new store.
\<close>

definition scale :: "store \<Rightarrow> nat \<Rightarrow> real \<Rightarrow> error + (nat \<times> store)" where
  "scale h self factor =
     (let obj = length h;
          h' = h @ [object_new (family (h ! self))]
      in case scale_loop (fields (h ! self)) factor self obj h' of
           Inl e \<Rightarrow> Inl e
         | Inr h'' \<Rightarrow> Inr (obj, h''))"

subsection \<open>Notions used to state the properties\<close>

text \<open>
  The position the specification assigns to the cell atom \<open>a\<close> of the unit cell with
  multi-index \<open>i\<close>: \<open>lattice_spacing * (\<Sum>k. i\<^sub>k * cellVector\<^sub>k + a)\<close>, component by
  component.
\<close>

definition spec_position :: "real \<Rightarrow> real list list \<Rightarrow> int list \<Rightarrow> real list \<Rightarrow> real list" where
  "spec_position spacing vectors i a =
     map (\<lambda>d. spacing * (sum_list (map2 (\<lambda>ik v. real_of_int ik * v ! d) i vectors) + a ! d))
       [0..<length a]"

text \<open>The objects a user obtains from one of the seven constructors.\<close>

inductive constructed :: "lattice \<Rightarrow> bool" where
  by_Chain: "constructed (new_Chain L spacing)"
| by_Square: "constructed (new_Square L spacing)"
| by_Rectangular:
    "new_Rectangular width height lattice_spacing_x lattice_spacing_y = Inr self \<Longrightarrow> constructed self"
| by_Honeycomb: "constructed (new_Honeycomb L spacing)"
| by_Triangular: "constructed (new_Triangular L spacing)"
| by_Lieb: "constructed (new_Lieb L spacing)"
| by_Kagome: "constructed (new_Kagome L spacing)"

section \<open>Properties\<close>

subsection \<open>Auxiliary facts\<close>

lemmas constructor_defs =
  new_Chain_def new_Square_def new_Rectangular_def new_Honeycomb_def new_Triangular_def
  new_Lieb_def new_Kagome_def Chain_init_def Square_init_def Rectangular_init_def
  Honeycomb_init_def Triangular_init_def Lieb_init_def Kagome_init_def
  BoundedBravais_init_def object_new_def scalar_div_def

lemma constructed_attributes:
  assumes "constructed self"
  shows "\<exists>shp spacing.
           shape self = Some shp \<and> lattice_spacing self = Some spacing \<and>
           length shp = length (cell_vectors self) \<and>
           n_atoms_priv self = Some None \<and> n_dims_priv self = Some None"
  using assms
  by (induction rule: constructed.induct)
     (auto simp: constructor_defs cell_vectors_def split: option.splits if_splits)

lemma for_each_Inr:
  "(\<And>x. x \<in> set xs \<Longrightarrow> f x = Inr (g x)) \<Longrightarrow> for_each f xs = Inr (map g xs)"
  by (induction xs) simp_all

lemma length_cell_vectors:
  "length (cell_vectors self) = (if family self = Chain then 1 else 2)"
  by (cases "family self") (simp_all add: cell_vectors_def)

lemma upt2: "[0..<2] = [0, Suc 0]"
  by (simp add: numeral_2_eq_2)

lemma coordinates_ok:
  assumes "length index = length (cell_vectors self)"
  shows "coordinates self index =
           Inr (map (\<lambda>a. map (\<lambda>d. sum_list (map2 (\<lambda>ik v. real_of_int ik * v ! d) index (cell_vectors self)) + a ! d)
                            [0..<length a])
                    (cell_atoms self))"
proof (cases "family self = Chain")
  case True
  with assms obtain i where "index = [i]"
    by (cases index) (simp_all add: length_cell_vectors)
  with True show ?thesis
    by (simp add: coordinates_def cell_vectors_def cell_atoms_def np_broadcast_def upt2)
next
  case False
  with assms have "length index = 2"
    by (simp add: length_cell_vectors)
  then obtain i j where "index = [i, j]"
    by (cases index; cases "tl index") auto
  then show ?thesis
    using False
    by (cases "family self")
       (simp_all add: coordinates_def cell_vectors_def cell_atoms_def np_broadcast_def upt2)
qed

lemma length_itertools_product_elem:
  "xs \<in> set (itertools_product xss) \<Longrightarrow> length xs = length xss"
  by (induction xss arbitrary: xs) auto

lemma set_itertools_product:
  "set (itertools_product xss) = {xs. list_all2 (\<lambda>x ys. x \<in> set ys) xs xss}"
  by (induction xss) (auto simp: list_all2_Cons2)

lemma set_range_int: "set (range_int n) = {k. 0 \<le> k \<and> k < n}"
  by (auto simp: range_int_def)

lemma set_multi_indices:
  "set (itertools_product (map range_int shp)) =
     {i. list_all2 (\<lambda>ik n. 0 \<le> ik \<and> ik < n) i shp}"
  by (simp add: set_itertools_product list_all2_map2 set_range_int)

lemma sorted_itertools_product:
  fixes xss :: "int list list"
  shows "(\<And>xs. xs \<in> set xss \<Longrightarrow> sorted_wrt (<) xs) \<Longrightarrow> sorted_wrt (<) (itertools_product xss)"
proof (induction xss)
  case Nil
  then show ?case by simp
next
  case (Cons ys xss)
  have P: "sorted_wrt (<) (itertools_product xss)"
    using Cons by simp
  have "sorted_wrt (<) ys" using Cons.prems by simp
  then have "sorted_wrt (<) (concat (map (\<lambda>x. map ((#) x) (itertools_product xss)) ys))"
  proof (induction ys)
    case Nil
    then show ?case by simp
  next
    case (Cons y ys)
    then show ?case using P
      by (auto simp: sorted_wrt_append sorted_wrt_map)
  qed
  then show ?case by simp
qed

lemma sorted_range_int: "sorted_wrt (<) (range_int n)"
  by (simp add: range_int_def strict_sorted_iff)

lemma sorted_multi_indices: "sorted_wrt (<) (itertools_product (map range_int shp))"
  by (rule sorted_itertools_product) (auto simp: sorted_range_int)




lemma enumerate_lattice_eq:
  assumes "shape self = Some shp" and "lattice_spacing self = Some spacing"
    and "length shp = length (cell_vectors self)"
  shows "enumerate_lattice self =
           Inr (concat (map (\<lambda>i. map (\<lambda>a. LocationInfo (spec_position spacing (cell_vectors self) i a) True)
                                     (cell_atoms self))
                            (itertools_product (map range_int shp))))"
proof -
  let ?body = "\<lambda>index.
     case coordinates self index of
       Inl e \<Rightarrow> Inl e
     | Inr rows \<Rightarrow>
         for_each
           (\<lambda>pos. case lattice_spacing self of
                     None \<Rightarrow> Inl AttributeError
                   | Some spacing \<Rightarrow> Inr (LocationInfo (map ((*) spacing) pos) True))
           rows"
  let ?g = "\<lambda>i. map (\<lambda>a. LocationInfo (spec_position spacing (cell_vectors self) i a) True)
                (cell_atoms self)"
  have "?body index = Inr (?g index)"
    if "index \<in> set (itertools_product (map range_int shp))" for index
  proof -
    have "length index = length (cell_vectors self)"
      using that assms(3) length_itertools_product_elem by fastforce
    then show ?thesis
      using assms(2)
      by (simp add: coordinates_ok for_each_Inr [where g = "\<lambda>pos. LocationInfo (map ((*) spacing) pos) True"]
            spec_position_def comp_def)
  qed
  then have "for_each ?body (itertools_product (map range_int shp))
               = Inr (map ?g (itertools_product (map range_int shp)))"
    by (rule for_each_Inr)
  then show ?thesis
    using assms(1) by (simp add: enumerate_lattice_def)
qed


lemma n_atoms_fresh:
  assumes "shape self = Some shp"
    and "n_atoms_priv self = Some None \<or>
         n_atoms_priv self = Some (Some (int (length (cell_atoms self)) * prod_list shp))"
  shows "n_atoms self =
           Inr (int (length (cell_atoms self)) * prod_list shp,
                self\<lparr>n_atoms_priv := Some (Some (int (length (cell_atoms self)) * prod_list shp))\<rparr>)"
  using assms
  by (auto simp: n_atoms_def n_atoms_stale_def n_atoms_fill_def np_prod_def cell_atoms_def)


lemma scale_eq:
  assumes "self < length h" and "shape (h ! self) = Some shp"
    and "lattice_spacing (h ! self) = Some spacing"
  shows "scale h self factor =
           Inr (length h,
                h @ [\<lparr>family = family (h ! self), shape = Some shp,
                       lattice_spacing = Some (factor * spacing),
                       ratio = (if family (h ! self) = Rectangular
                                then Some (get_ratio (h ! self)) else None),
                       n_atoms_priv = None, n_dims_priv = None\<rparr>])"
  using assms
  by (simp add: scale_def fields_def copy_attr_def object_new_def Let_def nth_append)



lemma n_dims_fresh:
  assumes "n_dims_priv self = Some None"
  shows "n_dims self =
           Inr (length (cell_vectors self),
                self\<lparr>n_dims_priv := Some (Some (length (cell_vectors self)))\<rparr>)"
  using assms by (simp add: n_dims_def n_dims_stale_def n_dims_fill_def)

lemma itertools_product_empty:
  "[] \<in> set xss \<Longrightarrow> itertools_product xss = []"
  by (induction xss) auto

lemma range_int_0: "range_int 0 = []"
  by (simp add: range_int_def)

lemma enumerate_lattice_empty:
  assumes "shape self = Some shp" and "lattice_spacing self = Some spacing"
    and "length shp = length (cell_vectors self)" and "0 \<in> set shp"
  shows "enumerate_lattice self = Inr []"
proof -
  have "[] \<in> set (map range_int shp)"
    using assms(4) range_int_0 by force
  then have "itertools_product (map range_int shp) = []"
    by (rule itertools_product_empty)
  then show ?thesis
    using enumerate_lattice_eq [OF assms(1-3)] by simp
qed

lemma n_atoms_evaluations_zero:
  assumes "shape self = Some shp" and "n_atoms_priv self = Some c"
    and "c = None \<or> c = Some 0"
    and "int (length (cell_atoms self)) * prod_list shp = 0"
  shows "n_atoms_evaluations k self = Inr k"
  using assms
proof (induction k arbitrary: self c)
  case 0
  then show ?case by simp
next
  case (Suc k)
  let ?self' = "self\<lparr>n_atoms_priv := Some (Some 0)\<rparr>"
  have st: "n_atoms_stale self = Inr True"
    using Suc.prems by (auto simp: n_atoms_stale_def)
  have na: "n_atoms self = Inr (0, ?self')"
    using Suc.prems
    by (auto simp: n_atoms_def n_atoms_stale_def n_atoms_fill_def np_prod_def)
  have "n_atoms_evaluations k ?self' = Inr k"
    using Suc.prems by (intro Suc.IH [where c = "Some 0"]) (simp_all add: cell_atoms_def)
  then show ?case
    using st na by simp
qed

lemma n_atoms_evaluations_nonzero:
  assumes "shape self = Some shp" and "n_atoms_priv self = Some None"
    and "int (length (cell_atoms self)) * prod_list shp \<noteq> 0"
  shows "n_atoms_evaluations (Suc k) self = Inr 1"
proof -
  let ?v = "int (length (cell_atoms self)) * prod_list shp"
  let ?self' = "self\<lparr>n_atoms_priv := Some (Some ?v)\<rparr>"
  have cached: "n_atoms_evaluations j ?self' = Inr 0" for j
  proof (induction j)
    case 0
    then show ?case by simp
  next
    case (Suc j)
    then show ?case
      using assms(3) by (simp add: n_atoms_def n_atoms_stale_def)
  qed
  show ?thesis
    using assms cached [of k]
    by (simp add: n_atoms_def n_atoms_stale_def n_atoms_fill_def np_prod_def cell_atoms_def)
qed

subsection \<open>The scenarios of the specification\<close>

lemmas enumerate_defs =
  enumerate_lattice_def coordinates_def cell_vectors_def cell_atoms_def np_broadcast_def
  range_int_def upto.simps

lemma enumerate_Chain_3:
  "enumerate_lattice (new_Chain 3 1) =
     Inr [LocationInfo [0, 0] True, LocationInfo [1, 0] True, LocationInfo [2, 0] True]"
  by (simp add: enumerate_defs constructor_defs)

lemma enumerate_Square_2:
  "enumerate_lattice (new_Square 2 1) =
     Inr [LocationInfo [0, 0] True, LocationInfo [0, 1] True,
          LocationInfo [1, 0] True, LocationInfo [1, 1] True]"
  by (simp add: enumerate_defs constructor_defs)

lemma enumerate_Honeycomb_1:
  "enumerate_lattice (new_Honeycomb 1 1) =
     Inr [LocationInfo [0, 0] True, LocationInfo [1 / 2, 1 / (2 * sqrt 3)] True]"
  by (simp add: enumerate_defs constructor_defs)

subsection \<open>Enumeration order and positions\<close>

text \<open>
  Claim C1. For every family and every shape whose length is the number of cell vectors
  (as every constructor gives it), \<^verbatim>\<open>enumerate()\<close> succeeds and yields, for the
  multi-indices \<open>i\<close> with \<open>0 \<le> i\<^sub>k < shape[k]\<close> taken in strictly increasing
  lexicographic order (row-major, last index fastest), and for each of them the cell
  atoms \<open>a\<close> in declared order, the position
  \<open>lattice_spacing * (\<Sum>k. i\<^sub>k * cellVector\<^sub>k + a)\<close> with the flag true. A strictly
  increasing list is determined by its set of elements, so the list of multi-indices is
  the one the claim describes.
\<close>

theorem enumerate_row_major:
  assumes "shape self = Some shp" and "lattice_spacing self = Some spacing"
    and "length shp = length (cell_vectors self)"
  shows "\<exists>indices.
           set indices = {i. list_all2 (\<lambda>ik n. 0 \<le> ik \<and> ik < n) i shp} \<and>
           sorted_wrt (<) indices \<and>
           enumerate_lattice self =
             Inr (concat (map (\<lambda>i. map (\<lambda>a. LocationInfo
                                                (spec_position spacing (cell_vectors self) i a) True)
                                       (cell_atoms self))
                              indices))"
  using set_multi_indices sorted_multi_indices enumerate_lattice_eq [OF assms]
  by blast

theorem enumerate_row_major_witness:
  "shape (new_Kagome 2 3) = Some [2, 2] \<and> lattice_spacing (new_Kagome 2 3) = Some 3 \<and>
   length [2, 2 :: int] = length (cell_vectors (new_Kagome 2 3)) \<and>
   (\<exists>indices.
      set indices = {i. list_all2 (\<lambda>ik n. 0 \<le> ik \<and> ik < n) i [2, 2]} \<and>
      sorted_wrt (<) indices \<and>
      enumerate_lattice (new_Kagome 2 3) =
        Inr (concat (map (\<lambda>i. map (\<lambda>a. LocationInfo
                                           (spec_position 3 (cell_vectors (new_Kagome 2 3)) i a) True)
                                  (cell_atoms (new_Kagome 2 3)))
                         indices)))"
proof -
  have h1: "shape (new_Kagome 2 3) = Some [2, 2]"
    by (simp add: constructor_defs)
  have h2: "lattice_spacing (new_Kagome 2 3) = Some 3"
    by (simp add: constructor_defs)
  have h3: "length [2, 2 :: int] = length (cell_vectors (new_Kagome 2 3))"
    by (simp add: constructor_defs cell_vectors_def)
  show ?thesis
    using h1 h2 h3 enumerate_row_major [OF h1 h2 h3] by blast
qed

subsection \<open>The atom count\<close>



subsection \<open>Scaling\<close>

text \<open>
  Claim C3. \<^verbatim>\<open>scale(factor)\<close> on an object with its two fields set returns the address
  of a new object (an address beyond every existing one) of the same class, with the
  same \<^verbatim>\<open>shape\<close>, for \<^verbatim>\<open>Rectangular\<close> the same \<^verbatim>\<open>ratio\<close>, and with
  \<^verbatim>\<open>lattice_spacing\<close> equal to \<open>factor * lattice_spacing\<close>; the store is the old one
  with the new object appended, so the original (like every other existing object) is
  unchanged in all of its attributes.
\<close>

theorem scale_new_instance:
  assumes "self < length h" and "shape (h ! self) = Some shp"
    and "lattice_spacing (h ! self) = Some spacing"
  shows "\<exists>obj h'.
           scale h self factor = Inr (obj, h') \<and>
           obj = length h \<and> obj \<noteq> self \<and>
           family (h' ! obj) = family (h ! self) \<and>
           shape (h' ! obj) = shape (h ! self) \<and>
           (family (h ! self) = Rectangular \<longrightarrow> ratio (h' ! obj) = Some (get_ratio (h ! self))) \<and>
           lattice_spacing (h' ! obj) = Some (factor * spacing) \<and>
           h' = h @ [h' ! obj] \<and> h' ! self = h ! self"
  using assms by (simp add: scale_eq nth_append)

theorem scale_new_instance_witness:
  "(0::nat) < length [new_Lieb 4 2] \<and> shape ([new_Lieb 4 2] ! 0) = Some [4, 4] \<and>
   lattice_spacing ([new_Lieb 4 2] ! 0) = Some 2 \<and>
   (\<exists>obj h'.
      scale [new_Lieb 4 2] 0 5 = Inr (obj, h') \<and> obj = 1 \<and>
      family (h' ! obj) = Lieb \<and> shape (h' ! obj) = Some [4, 4] \<and>
      lattice_spacing (h' ! obj) = Some 10 \<and>
      h' = [new_Lieb 4 2] @ [h' ! obj] \<and> h' ! 0 = new_Lieb 4 2)"
proof -
  have h1: "(0::nat) < length [new_Lieb 4 2]"
    by simp
  have h2: "shape ([new_Lieb 4 2] ! 0) = Some [4, 4]"
    by (simp add: constructor_defs)
  have h3: "lattice_spacing ([new_Lieb 4 2] ! 0) = Some 2"
    by (simp add: constructor_defs)
  have f: "family ([new_Lieb 4 2] ! 0) = Lieb"
    by (simp add: constructor_defs)
  show ?thesis
    using h1 h2 h3 scale_new_instance [OF h1 h2 h3, of 5] unfolding f h2 by auto
qed



text \<open>
  Claim C10. On the object \<^verbatim>\<open>scale(factor)\<close> returns, reading \<^verbatim>\<open>n_atoms\<close> or
  \<^verbatim>\<open>n_dims\<close> raises \<^verbatim>\<open>AttributeError\<close>: the object was made by \<^verbatim>\<open>__new__\<close> alone and
  only the dataclass fields were copied to it, so its private caches were never assigned.
\<close>

theorem scaled_properties_fail:
  assumes "self < length h" and "shape (h ! self) = Some shp"
    and "lattice_spacing (h ! self) = Some spacing"
  shows "\<exists>obj h'.
           scale h self factor = Inr (obj, h') \<and>
           n_atoms (h' ! obj) = Inl AttributeError \<and> n_dims (h' ! obj) = Inl AttributeError"
  using assms
  by (simp add: scale_eq n_atoms_def n_atoms_stale_def n_dims_def n_dims_stale_def)

theorem scaled_properties_fail_witness:
  "(0::nat) < length [new_Square 3 1] \<and> shape ([new_Square 3 1] ! 0) = Some [3, 3] \<and>
   lattice_spacing ([new_Square 3 1] ! 0) = Some 1 \<and>
   (\<exists>obj h'.
      scale [new_Square 3 1] 0 2 = Inr (obj, h') \<and>
      n_atoms (h' ! obj) = Inl AttributeError \<and> n_dims (h' ! obj) = Inl AttributeError)"
proof -
  have h1: "(0::nat) < length [new_Square 3 1]"
    by simp
  have h2: "shape ([new_Square 3 1] ! 0) = Some [3, 3]"
    by (simp add: constructor_defs)
  have h3: "lattice_spacing ([new_Square 3 1] ! 0) = Some 1"
    by (simp add: constructor_defs)
  show ?thesis
    using h1 h2 h3 scaled_properties_fail [OF h1 h2 h3, of 2] by blast
qed

subsection \<open>The cache of the atom count\<close>

text \<open>
  Claim C5. The claim asks that the product behind \<^verbatim>\<open>n_atoms\<close> be evaluated at most
  once per object, also when the value is zero. The code tests \<^verbatim>\<open>not self.__n_atoms\<close>,
  which holds for a stored zero as it does for \<^verbatim>\<open>None\<close>: on \<^verbatim>\<open>Square(0)\<close> the first
  read stores 0, the test still holds afterwards, and two reads evaluate the product
  twice.
\<close>

theorem n_atoms_zero_not_cached:
  "n_atoms (new_Square 0 1) = Inr (0, (new_Square 0 1)\<lparr>n_atoms_priv := Some (Some 0)\<rparr>) \<and>
   n_atoms_stale ((new_Square 0 1)\<lparr>n_atoms_priv := Some (Some 0)\<rparr>) = Inr True \<and>
   n_atoms_evaluations 2 (new_Square 0 1) = Inr 2"
  by (simp add: numeral_2_eq_2 n_atoms_def n_atoms_stale_def n_atoms_fill_def np_prod_def
        cell_atoms_def constructor_defs)

subsection \<open>Empty lattices and totality of the enumeration\<close>

text \<open>
  Claim C6. On every object built by one of the constructors \<^verbatim>\<open>enumerate()\<close> returns
  without raising; when its shape contains a zero repeat count the enumeration is empty
  and \<^verbatim>\<open>n_atoms\<close> is 0. \<^verbatim>\<open>Square(0)\<close>, with shape \<open>(0, 0)\<close>, is the instance
  evaluated after the theorem.
\<close>

theorem enumerate_never_fails:
  assumes "constructed self" and "shape self = Some shp"
  shows "(\<exists>sites. enumerate_lattice self = Inr sites) \<and>
         (0 \<in> set shp \<longrightarrow>
            enumerate_lattice self = Inr [] \<and> (\<exists>self'. n_atoms self = Inr (0, self')))"
proof -
  obtain spacing where a: "lattice_spacing self = Some spacing"
      "length shp = length (cell_vectors self)" "n_atoms_priv self = Some None"
    using constructed_attributes [OF assms(1)] assms(2) by auto
  have "\<exists>sites. enumerate_lattice self = Inr sites"
    using enumerate_lattice_eq [OF assms(2) a(1,2)] by simp
  moreover have "enumerate_lattice self = Inr []" if "0 \<in> set shp"
    using enumerate_lattice_empty [OF assms(2) a(1,2) that] .
  moreover have "\<exists>self'. n_atoms self = Inr (0, self')" if "0 \<in> set shp"
  proof -
    have "prod_list shp = 0"
      using that by (simp add: prod_list_zero_iff)
    then show ?thesis
      using n_atoms_fresh [OF assms(2), of ] a(3) by simp
  qed
  ultimately show ?thesis by blast
qed

theorem enumerate_never_fails_witness:
  "constructed (new_Square 0 1) \<and> shape (new_Square 0 1) = Some [0, 0] \<and>
   enumerate_lattice (new_Square 0 1) = Inr [] \<and> (\<exists>self'. n_atoms (new_Square 0 1) = Inr (0, self'))"
proof -
  have h1: "constructed (new_Square 0 1)"
    by (rule by_Square)
  have h2: "shape (new_Square 0 1) = Some [0, 0]"
    by (simp add: constructor_defs)
  show ?thesis
    using h1 h2 enumerate_never_fails [OF h1 h2] by simp
qed

subsection \<open>Rectangular lattices\<close>

text \<open>
  Claim C7. \<^verbatim>\<open>Rectangular(width, height, lattice_spacing_x, lattice_spacing_y)\<close>, for a
  non-zero \<^verbatim>\<open>lattice_spacing_x\<close> (the division raises otherwise), yields an object whose
  \<^verbatim>\<open>ratio\<close> is \<open>lattice_spacing_y / lattice_spacing_x\<close>, or \<open>1 / lattice_spacing_x\<close> when
  \<^verbatim>\<open>lattice_spacing_y\<close> is omitted, whose \<^verbatim>\<open>lattice_spacing\<close> is \<^verbatim>\<open>lattice_spacing_x\<close>,
  whose shape is \<open>(width, height)\<close> and whose second cell vector is \<open>(0, ratio)\<close>.
  \<^verbatim>\<open>Rectangular(2, 3, lattice_spacing_x=2.0)\<close> is the instance evaluated after the
  theorem: ratio \<open>1/2\<close>, second cell vector \<open>(0, 1/2)\<close>.
\<close>

theorem Rectangular_ratio:
  assumes "lattice_spacing_x \<noteq> 0"
  shows "\<exists>self.
           new_Rectangular width height lattice_spacing_x lattice_spacing_y = Inr self \<and>
           ratio self =
             Some ((case lattice_spacing_y of None \<Rightarrow> 1 | Some y \<Rightarrow> y) / lattice_spacing_x) \<and>
           lattice_spacing self = Some lattice_spacing_x \<and>
           shape self = Some [width, height] \<and>
           cell_vectors self ! 1 =
             [0, (case lattice_spacing_y of None \<Rightarrow> 1 | Some y \<Rightarrow> y) / lattice_spacing_x]"
  using assms
  by (cases lattice_spacing_y) (simp_all add: constructor_defs cell_vectors_def get_ratio_def)

theorem Rectangular_ratio_witness:
  "(2::real) \<noteq> 0 \<and>
   (\<exists>self. new_Rectangular 2 3 2 None = Inr self \<and> ratio self = Some (1 / 2) \<and>
      lattice_spacing self = Some 2 \<and> shape self = Some [2, 3] \<and>
      cell_vectors self ! 1 = [0, 1 / 2])"
proof -
  have h: "(2::real) \<noteq> 0"
    by simp
  show ?thesis
    using h Rectangular_ratio [OF h, of 2 3 None] by simp
qed

subsection \<open>Dimensions\<close>

text \<open>
  Claim C8. On every object built by one of the seven constructors, \<^verbatim>\<open>n_dims\<close> returns
  the length of \<^verbatim>\<open>shape\<close>, which is the number of cell vectors of the class.
\<close>

theorem n_dims_matches_shape:
  assumes "constructed self"
  shows "\<exists>shp self'.
           shape self = Some shp \<and> n_dims self = Inr (length shp, self') \<and>
           length shp = length (cell_vectors self)"
  using constructed_attributes [OF assms] by (auto simp: n_dims_fresh)

theorem n_dims_matches_shape_witness:
  "constructed (new_Chain 5 1) \<and>
   (\<exists>self'. shape (new_Chain 5 1) = Some [5] \<and>
      n_dims (new_Chain 5 1) = Inr (length [5 :: int], self') \<and>
      length [5 :: int] = length (cell_vectors (new_Chain 5 1)))"
proof -
  have h: "constructed (new_Chain 5 1)"
    by (rule by_Chain)
  have s: "shape (new_Chain 5 1) = Some [5]"
    by (simp add: constructor_defs)
  show ?thesis
    using h s n_dims_matches_shape [OF h] by auto
qed

text \<open>
  The claim C9 as stated fails on \<^verbatim>\<open>Chain\<close>: its \<^verbatim>\<open>n_dims\<close> is 1, while its cell
  vector \<open>(1, 0)\<close> has two components.
\<close>

theorem Chain_cell_vector_counterexample:
  "\<not> list_all (\<lambda>v. map_sum id fst (n_dims (new_Chain 3 1)) = Inr (length v))
        (cell_vectors (new_Chain 3 1))"
  by (simp add: n_dims_def n_dims_stale_def n_dims_fill_def cell_vectors_def constructor_defs)

text \<open>
  Claim C9, amended. On every object built by one of the constructors, every vector
  returned by \<^verbatim>\<open>cell_vectors()\<close> has exactly two components, and \<^verbatim>\<open>n_dims\<close> is 2 for
  every class but \<^verbatim>\<open>Chain\<close>, where it is 1: the number of components is \<^verbatim>\<open>n_dims\<close>
  for every class except \<^verbatim>\<open>Chain\<close>, whose single cell vector lies in the plane too.
\<close>

theorem cell_vectors_planar:
  assumes "constructed self"
  shows "list_all (\<lambda>v. length v = 2) (cell_vectors self) \<and>
         (\<exists>self'. n_dims self = Inr (if family self = Chain then 1 else 2, self'))"
proof -
  have "list_all (\<lambda>v. length v = 2) (cell_vectors self)"
    by (cases "family self") (simp_all add: cell_vectors_def)
  moreover have "\<exists>self'. n_dims self = Inr (if family self = Chain then 1 else 2, self')"
    using constructed_attributes [OF assms] by (auto simp: n_dims_fresh length_cell_vectors)
  ultimately show ?thesis ..
qed

theorem cell_vectors_planar_witness:
  "constructed (new_Chain 3 1) \<and> constructed (new_Kagome 3 1) \<and>
   list_all (\<lambda>v. length v = 2) (cell_vectors (new_Chain 3 1)) \<and>
   (\<exists>self'. n_dims (new_Chain 3 1) = Inr (1, self')) \<and>
   list_all (\<lambda>v. length v = 2) (cell_vectors (new_Kagome 3 1)) \<and>
   (\<exists>self'. n_dims (new_Kagome 3 1) = Inr (2, self'))"
proof -
  have h1: "constructed (new_Chain 3 1)"
    by (rule by_Chain)
  have h2: "constructed (new_Kagome 3 1)"
    by (rule by_Kagome)
  have f1: "family (new_Chain 3 1) = Chain" and f2: "family (new_Kagome 3 1) = Kagome"
    by (simp_all add: constructor_defs)
  show ?thesis
    using h1 h2 cell_vectors_planar [OF h1] cell_vectors_planar [OF h2] unfolding f1 f2 by simp
qed


end
